theory Spec2Isabelle
  imports Complex_Main
begin

section \<open>Pulse sequences of qkit: a shallow embedding of pulse\_sequence.py\<close>

text \<open>
  The module is Python 2 (it calls \<^verbatim>\<open>dict.has_key\<close>) on top of numpy. The embedding
  follows the classes \<^verbatim>\<open>Shape\<close>, \<^verbatim>\<open>ShapeLib\<close>, \<^verbatim>\<open>PulseType\<close>, \<^verbatim>\<open>Pulse\<close> and
  \<^verbatim>\<open>PulseSequence\<close> of the source.

  Conventions of the embedding:
  \<^item> a Python float is a \<^typ>\<open>real\<close> and a Python complex a \<^typ>\<open>complex\<close>: arithmetic is
    exact, the rounding of binary64 is not modelled;
  \<^item> a one-dimensional numpy array is its element type (dtype) and the list of its entries;
    an operation in place keeps the dtype of the array it writes to, and whether a cast to
    that dtype is allowed is numpy's cast rule, a parameter of the model (the rule is
    \<^verbatim>\<open>unsafe\<close> before numpy 1.10 and \<^verbatim>\<open>same_kind\<close> from 1.10 on);
  \<^item> a raised exception is \<open>Inl\<close> of an \<open>exn\<close>, a normal return is \<open>Inr\<close>;
  \<^item> the records written with \<^verbatim>\<open>logging\<close> are returned as a list, oldest first;
  \<^item> a pulse object is a reference into a store, so that \<^verbatim>\<open>is\<close> is equality of
    references;
  \<^item> a method of \<^verbatim>\<open>PulseSequence\<close> returns the state of the receiver after the call,
    the log records it wrote, and its outcome.
\<close>

subsection \<open>Python values\<close>

datatype exn = ValueError | TypeError | ZeroDivisionError | IndexError

type_synonym kwargs = "string \<rightharpoonup> real"

text \<open>
  The values a caller can pass where the source inspects the dynamic type. A function is
  given by the argument names that \<^verbatim>\<open>getargspec(f).args\<close> reports and by its value on
  the keyword arguments it is called with.
\<close>

datatype pyval =
    PyNone
  | PyBool bool
  | PyInt int
  | PyFloat real
  | PyStr string
  | PyFunc "string list" "kwargs \<Rightarrow> real"

fun isinstance_float :: "pyval \<Rightarrow> bool" where
  "isinstance_float (PyFloat x) = True"
| "isinstance_float v = False"

fun isinstance_str :: "pyval \<Rightarrow> bool" where
  "isinstance_str (PyStr s) = True"
| "isinstance_str v = False"

fun callable :: "pyval \<Rightarrow> bool" where
  "callable (PyFunc args f) = True"
| "callable v = False"

text \<open>
  A number that is a Python int or a Python float. The source tests \<^verbatim>\<open>iq_frequency is 0\<close>,
  an identity test: in CPython it holds for the int \<open>0\<close> (one cached object) and for no
  float. The product of two ints is an int, every other product a float.
\<close>

datatype pynum = IntNum int | FloatNum real

fun num_val :: "pynum \<Rightarrow> real" where
  "num_val (IntNum i) = real_of_int i"
| "num_val (FloatNum x) = x"

fun is_int_zero :: "pynum \<Rightarrow> bool" where
  "is_int_zero (IntNum i) = (i = 0)"
| "is_int_zero (FloatNum x) = False"

fun py_mul :: "pynum \<Rightarrow> pynum \<Rightarrow> pynum" where
  "py_mul (IntNum i) (IntNum j) = IntNum (i * j)"
| "py_mul a b = FloatNum (num_val a * num_val b)"

text \<open>A dc offset: an int or float, or a Python complex.\<close>

datatype pyscalar = RealNum pynum | ComplexNum complex

fun scalar_val :: "pyscalar \<Rightarrow> complex" where
  "scalar_val (RealNum a) = complex_of_real (num_val a)"
| "scalar_val (ComplexNum z) = z"

subsection \<open>Logging\<close>

datatype level = ERROR | WARNING

text \<open>
  One constructor per message of the source:
  \<^item> \<open>ArgumentsMismatch\<close>: "Given function arguments do not match with required ones."
  \<^item> \<open>NoSamplerate\<close>: "Sequence call requires samplerate."
  \<^item> \<open>PulseTooShort name\<close>: "name-pulse is shorter than ... nanoseconds and thus is omitted."
  \<^item> \<open>BadPulseName\<close>: "The pulse name has to be a string and must not be None."
  \<^item> \<open>DuplicatePulseName name\<close>: "Another pulse with the same name (name) is already
    present in the sequence!"
\<close>

datatype message =
    ArgumentsMismatch
  | NoSamplerate
  | PulseTooShort pyval
  | BadPulseName
  | DuplicatePulseName string

type_synonym log = "(level \<times> message) list"

subsection \<open>numpy arrays\<close>

text \<open>The element types that occur: \<^verbatim>\<open>int64\<close>, \<^verbatim>\<open>float64\<close> and \<^verbatim>\<open>complex128\<close>. The
  entries of an array are kept as complex numbers; those of an \<^verbatim>\<open>int64\<close> array are
  integers and those of a \<^verbatim>\<open>float64\<close> array are real.\<close>

datatype dtype = Int64 | Float64 | Complex128

datatype ndarray = NdArray dtype "complex list"

fun dtype_of :: "ndarray \<Rightarrow> dtype" where
  "dtype_of (NdArray d xs) = d"

fun items :: "ndarray \<Rightarrow> complex list" where
  "items (NdArray d xs) = xs"

fun len :: "ndarray \<Rightarrow> nat" where
  "len (NdArray d xs) = length xs"

text \<open>The kind of a dtype (integer, float, complex), and the dtype of the result of an
  operation on two operands: the one of the higher kind.\<close>

fun kind :: "dtype \<Rightarrow> nat" where
  "kind Int64 = 0"
| "kind Float64 = 1"
| "kind Complex128 = 2"

definition promote :: "dtype \<Rightarrow> dtype \<Rightarrow> dtype" where
  "promote a b = (if kind a \<le> kind b then b else a)"

fun dtype_pynum :: "pynum \<Rightarrow> dtype" where
  "dtype_pynum (IntNum i) = Int64"
| "dtype_pynum (FloatNum x) = Float64"

fun dtype_scalar :: "pyscalar \<Rightarrow> dtype" where
  "dtype_scalar (RealNum a) = dtype_pynum a"
| "dtype_scalar (ComplexNum z) = Complex128"

text \<open>The cast of a value to a dtype: a complex number loses its imaginary part, and a
  real number is truncated towards zero to an integer.\<close>

definition trunc :: "real \<Rightarrow> int" where
  "trunc x = (if 0 \<le> x then \<lfloor>x\<rfloor> else \<lceil>x\<rceil>)"

fun astype :: "dtype \<Rightarrow> complex \<Rightarrow> complex" where
  "astype Int64 z = complex_of_real (real_of_int (trunc (Re z)))"
| "astype Float64 z = complex_of_real (Re z)"
| "astype Complex128 z = z"

text \<open>The cast rule of an operation in place. Under \<^verbatim>\<open>same_kind\<close> the result may be
  written to an array of its own kind or a higher one, and any other cast raises
  \<^verbatim>\<open>TypeError\<close>; under \<^verbatim>\<open>unsafe\<close> every cast is made.\<close>

datatype casting = Unsafe | SameKind

definition can_cast :: "casting \<Rightarrow> dtype \<Rightarrow> dtype \<Rightarrow> bool" where
  "can_cast c from to = (c = Unsafe \<or> kind from \<le> kind to)"

text \<open>\<^verbatim>\<open>a op= b\<close> on one-dimensional arrays. The types are resolved first. Then the
  operation is elementwise for equal lengths, \<open>b\<close> is broadcast when it has one entry, and
  every other pair of shapes raises \<^verbatim>\<open>ValueError\<close>. The result has the dtype of \<open>a\<close>.\<close>

definition inplace ::
  "casting \<Rightarrow> (complex \<Rightarrow> complex \<Rightarrow> complex) \<Rightarrow> ndarray \<Rightarrow> ndarray \<Rightarrow> exn + ndarray"
where
  "inplace c f a b =
     (if \<not> can_cast c (promote (dtype_of a) (dtype_of b)) (dtype_of a) then Inl TypeError
      else if len b = len a then
        Inr (NdArray (dtype_of a) (map (astype (dtype_of a)) (map2 f (items a) (items b))))
      else if len b = 1 then
        Inr (NdArray (dtype_of a) (map (\<lambda>x. astype (dtype_of a) (f x (hd (items b)))) (items a)))
      else Inl ValueError)"

text \<open>\<^verbatim>\<open>a += s\<close> for a Python number \<open>s\<close>.\<close>

definition iadd_scalar :: "casting \<Rightarrow> ndarray \<Rightarrow> pyscalar \<Rightarrow> exn + ndarray" where
  "iadd_scalar c a s =
     (if \<not> can_cast c (promote (dtype_of a) (dtype_scalar s)) (dtype_of a) then Inl TypeError
      else Inr (NdArray (dtype_of a)
                  (map (\<lambda>x. astype (dtype_of a) (x + scalar_val s)) (items a))))"

text \<open>\<^verbatim>\<open>a[a != 0] += s\<close> for a Python number \<open>s\<close>: the selected entries are copied, \<open>s\<close>
  is added to the copy in place, and the copy is written back.\<close>

definition iadd_nonzero :: "casting \<Rightarrow> ndarray \<Rightarrow> pyscalar \<Rightarrow> exn + ndarray" where
  "iadd_nonzero c a s =
     (if \<not> can_cast c (promote (dtype_of a) (dtype_scalar s)) (dtype_of a) then Inl TypeError
      else Inr (NdArray (dtype_of a)
                  (map (\<lambda>x. if x \<noteq> 0 then astype (dtype_of a) (x + scalar_val s) else x)
                     (items a))))"

text \<open>\<^verbatim>\<open>np.zeros(n)\<close>, a \<^verbatim>\<open>float64\<close> array.\<close>

definition np_zeros :: "nat \<Rightarrow> ndarray" where
  "np_zeros n = NdArray Float64 (replicate n 0)"

text \<open>\<^verbatim>\<open>a.resize(n)\<close> in place: the array is cut to \<open>n\<close> entries or filled with zeros.\<close>

fun resize :: "ndarray \<Rightarrow> nat \<Rightarrow> ndarray" where
  "resize (NdArray d xs) n = NdArray d (take n xs @ replicate (n - length xs) 0)"

text \<open>\<^verbatim>\<open>np.arange(0, stop, step)\<close>: \<open>ceil(stop / step)\<close> entries \<open>0, step, 2 step, ...\<close>
  (none when that number is not positive), a \<^verbatim>\<open>float64\<close> array given by its entries.\<close>

definition np_arange :: "real \<Rightarrow> real \<Rightarrow> real list" where
  "np_arange stop step = map (\<lambda>k. real k * step) [0..<nat \<lceil>stop / step\<rceil>]"

text \<open>Python 2: \<^verbatim>\<open>round\<close> rounds half away from zero and returns a float; \<^verbatim>\<open>int\<close> of it
  is that integer.\<close>

definition int_round :: "real \<Rightarrow> int" where
  "int_round x = (if 0 \<le> x then \<lfloor>x + 1 / 2\<rfloor> else - \<lfloor>- x + 1 / 2\<rfloor>)"

subsection \<open>Shape and ShapeLib\<close>

record Shape =
  shape_name :: string
  pyfunc :: "real \<Rightarrow> pynum"

text \<open>\<^verbatim>\<open>Shape.__mul__\<close>.\<close>

definition Shape_mul :: "Shape \<Rightarrow> Shape \<Rightarrow> Shape" where
  "Shape_mul self other =
     \<lparr>shape_name = shape_name self, pyfunc = (\<lambda>x. py_mul (pyfunc self x) (pyfunc other x))\<rparr>"

text \<open>Calling a \<^verbatim>\<open>Shape\<close>, an \<^verbatim>\<open>np.vectorize\<close> with no \<^verbatim>\<open>otypes\<close>: an array with no
  entry raises \<^verbatim>\<open>ValueError\<close>; otherwise the dtype of the result is the type of the
  function's value at the first entry, and the value at every entry is cast to it.\<close>

definition Shape_call :: "Shape \<Rightarrow> real list \<Rightarrow> exn + ndarray" where
  "Shape_call self xs =
     (if xs = [] then Inl ValueError
      else
        let otype = dtype_pynum (pyfunc self (hd xs)) in
        Inr (NdArray otype
               (map (\<lambda>x. astype otype (complex_of_real (num_val (pyfunc self x)))) xs)))"

definition ShapeLib_zero :: Shape where
  "ShapeLib_zero = \<lparr>shape_name = '''', pyfunc = (\<lambda>x. IntNum 0)\<rparr>"

definition ShapeLib_rect :: Shape where
  "ShapeLib_rect =
     \<lparr>shape_name = ''rect'', pyfunc = (\<lambda>x. if x \<ge> 0 \<and> x < 1 then IntNum 1 else IntNum 0)\<rparr>"

definition ShapeLib_gauss :: Shape where
  "ShapeLib_gauss =
     Shape_mul \<lparr>shape_name = ''gauss'',
                pyfunc = (\<lambda>x. FloatNum (exp (- 0.5 * ((x - 0.5) / 0.166) ^ 2)))\<rparr> ShapeLib_rect"

subsection \<open>Pulse\<close>

datatype PulseType = Pulse | Wait | Readout

text \<open>The \<^verbatim>\<open>length\<close> of a constructed pulse: a float or a function.\<close>

datatype pulse_length = Fixed real | Variable "string list" "kwargs \<Rightarrow> real"

record Pulse =
  length_p :: pulse_length
  shape :: Shape
  name :: pyval
  amplitude :: pynum
  phase :: real
  iq_frequency :: pynum
  iq_dc_offset :: pyscalar
  iq_angle :: real
  ptype :: PulseType

text \<open>\<^verbatim>\<open>Pulse.__init__\<close>: the length is kept when it is a float or callable, and
  \<^verbatim>\<open>ValueError\<close> is raised otherwise.\<close>

definition Pulse_init ::
  "pyval \<Rightarrow> Shape \<Rightarrow> pyval \<Rightarrow> pynum \<Rightarrow> real \<Rightarrow> pynum \<Rightarrow> pyscalar \<Rightarrow> real \<Rightarrow> PulseType \<Rightarrow> exn + Pulse"
where
  "Pulse_init plen shp nm amp ph iq_freq iq_off iq_ang pt =
     (if isinstance_float plen \<or> callable plen then
        Inr \<lparr>length_p = (case plen of PyFunc args f \<Rightarrow> Variable args f | PyFloat x \<Rightarrow> Fixed x),
             shape = shp, name = nm, amplitude = amp, phase = ph, iq_frequency = iq_freq,
             iq_dc_offset = iq_off, iq_angle = iq_ang, ptype = pt\<rparr>
      else Inl ValueError)"

text \<open>\<^verbatim>\<open>Pulse.__call__\<close>: the amplitude times the shape at the given time fractions.\<close>

definition Pulse_call :: "Pulse \<Rightarrow> real list \<Rightarrow> exn + ndarray" where
  "Pulse_call self time_fractions =
     (case Shape_call (shape self) time_fractions of
        Inl e \<Rightarrow> Inl e
      | Inr a \<Rightarrow>
          Inr (NdArray (promote (dtype_pynum (amplitude self)) (dtype_of a))
                 (map (\<lambda>y. complex_of_real (num_val (amplitude self)) * y) (items a))))"

text \<open>What \<^verbatim>\<open>get_envelope\<close> returns: the int \<open>0\<close> for a pulse of variable length, an
  array otherwise.\<close>

datatype envelope = IntZero | Array ndarray

definition get_envelope :: "Pulse \<Rightarrow> real \<Rightarrow> exn + envelope" where
  "get_envelope self samplerate =
     (if samplerate = 0 then Inl ZeroDivisionError
      else
        let timestep = 1 / samplerate in
        case length_p self of
          Variable args f \<Rightarrow> Inr IntZero
        | Fixed l \<Rightarrow>
            (case Pulse_call self (map (\<lambda>t. t / l) (np_arange l timestep)) of
               Inl e \<Rightarrow> Inl e
             | Inr a \<Rightarrow> Inr (Array a)))"

text \<open>\<^verbatim>\<open>get_complex_envelope\<close>. With a variable length the envelope is the int \<open>0\<close>, and
  \<^verbatim>\<open>np.arange(0, self.length, timestep)\<close> on a function raises \<^verbatim>\<open>TypeError\<close>. The
  operations are not in place: the mixed envelope is a \<^verbatim>\<open>complex128\<close> array.\<close>

definition get_complex_envelope :: "Pulse \<Rightarrow> real \<Rightarrow> exn + envelope" where
  "get_complex_envelope self samplerate =
     (if samplerate = 0 then Inl ZeroDivisionError
      else
        let timestep = 1 / samplerate in
        case get_envelope self samplerate of
          Inl e \<Rightarrow> Inl e
        | Inr envelope \<Rightarrow>
            if is_int_zero (iq_frequency self) then Inr envelope
            else
              (case (length_p self, envelope) of
                 (Fixed l, Array env) \<Rightarrow>
                   let time = np_arange l timestep;
                       envelope_complex =
                         map2 (\<lambda>e t. e *
                                 exp (\<i> * complex_of_real
                                   (2 * pi * num_val (iq_frequency self) * t - pi / 180 * phase self)))
                           (items env) time;
                       I = map Re envelope_complex;
                       Q = map (\<lambda>z. Im (z * exp (\<i> * complex_of_real (pi / 180 * (90 - iq_angle self)))))
                             envelope_complex
                   in Inr (Array (NdArray Complex128
                                    (map2 (\<lambda>i q. complex_of_real i + \<i> * complex_of_real q
                                                   + scalar_val (iq_dc_offset self)) I Q)))
               | _ \<Rightarrow> Inl TypeError))"

subsection \<open>PulseSequence\<close>

type_synonym ref = nat

type_synonym store = "ref \<Rightarrow> Pulse"

text \<open>The fields of a \<^verbatim>\<open>PulseSequence\<close> that its methods \<^verbatim>\<open>__call__\<close> and \<^verbatim>\<open>add\<close> use
  (\<open>_sequence\<close>, \<open>_next_pulse_is_parallel\<close>, \<open>_pulses\<close>, \<open>_variables\<close>, \<open>dc_corr\<close>,
  \<open>samplerate\<close>; the sample rate is \<open>None\<close> when neither the sample nor the caller gave
  one).\<close>

record PulseSequence =
  sequence :: "ref list list"
  next_pulse_is_parallel :: bool
  pulses :: "string \<rightharpoonup> ref"
  variables :: "string set"
  dc_corr :: pyscalar
  samplerate :: "real option"

subsubsection \<open>\_\_call\_\_: one pulse\<close>

text \<open>Lines 215 to 222: a function is called with the keyword arguments it names
  (\<^verbatim>\<open>TypeError\<close> when one of them was not given).\<close>

definition resolve_length :: "kwargs \<Rightarrow> Pulse \<Rightarrow> exn + real" where
  "resolve_length kw pulse =
     (case length_p pulse of
        Variable args f \<Rightarrow>
          (if set args \<subseteq> dom kw then Inr (f (kw |` set args)) else Inl TypeError)
      | Fixed l \<Rightarrow> Inr l)"

text \<open>Lines 234 to 242: the array of the pulse. \<^verbatim>\<open>np.zeros\<close> of a negative number raises
  \<^verbatim>\<open>ValueError\<close>.\<close>

definition create_wfm :: "real \<Rightarrow> Pulse \<Rightarrow> real \<Rightarrow> exn + ndarray" where
  "create_wfm sr pulse l =
     (let timestep = 1 / sr in
      if ptype pulse = Pulse then
        (if l > 0.5 * timestep then
           Pulse_call pulse (map (\<lambda>t. t / l) (np_arange l timestep))
         else Inr (np_zeros 0))
      else
        (let n = int_round (l * sr) in
         if n < 0 then Inl ValueError else Inr (np_zeros (nat n))))"

text \<open>Line 254: \<^verbatim>\<open>time = np.arange(position_of_next_slice, len(wfm)) * timestep\<close>.\<close>

definition iq_time :: "nat \<Rightarrow> nat \<Rightarrow> real \<Rightarrow> real list" where
  "iq_time position_of_next_slice len_wfm timestep =
     map (\<lambda>k. real k * timestep) [position_of_next_slice..<len_wfm]"

text \<open>Lines 254 to 263, the body of \<^verbatim>\<open>if IQ_mixing and iq_freq != 0\<close>. The product on
  line 257 and the sum on line 263 are in place; \<^verbatim>\<open>wfm_i + 1.j * wfm_q\<close> on line 262 is
  a new \<^verbatim>\<open>complex128\<close> array.\<close>

definition iq_mix :: "casting \<Rightarrow> real \<Rightarrow> nat \<Rightarrow> Pulse \<Rightarrow> ndarray \<Rightarrow> exn + ndarray" where
  "iq_mix c timestep position_of_next_slice pulse wfm =
     (let time = iq_time position_of_next_slice (len wfm) timestep;
          iq_phase = NdArray Complex128
                       (map (\<lambda>t. exp (\<i> * complex_of_real
                          (2 * pi * num_val (iq_frequency pulse) * t - pi / 180 * phase pulse))) time)
      in case inplace c (\<lambda>x y. x * y) wfm iq_phase of
           Inl e \<Rightarrow> Inl e
         | Inr wfm1 \<Rightarrow>
             let wfm2 =
                   (if iq_angle pulse \<noteq> 90 then
                      NdArray Complex128
                        (map (\<lambda>z. complex_of_real (Re z) + \<i> * complex_of_real
                                (Im (z * exp (\<i> * complex_of_real (pi / 180 * (90 - iq_angle pulse))))))
                           (items wfm1))
                    else wfm1)
             in iadd_nonzero c wfm2 (iq_dc_offset pulse))"

text \<open>Lines 214 to 263 without the assignment to \<open>readout_index\<close>: the log records
  written for the pulse, and its array as it is added to the slice.\<close>

definition render_pulse ::
  "casting \<Rightarrow> real \<Rightarrow> bool \<Rightarrow> kwargs \<Rightarrow> nat \<Rightarrow> Pulse \<Rightarrow> log \<times> (exn + ndarray)"
where
  "render_pulse c sr IQ_mixing kw position_of_next_slice pulse =
     (let timestep = 1 / sr in
      case resolve_length kw pulse of
        Inl e \<Rightarrow> ([], Inl e)
      | Inr l \<Rightarrow>
          let lg = (if l < 0.5 * timestep \<and> l \<noteq> 0
                    then [(WARNING, PulseTooShort (name pulse))] else [])
          in (case create_wfm sr pulse l of
                Inl e \<Rightarrow> (lg, Inl e)
              | Inr wfm \<Rightarrow>
                  if IQ_mixing \<and> num_val (iq_frequency pulse) \<noteq> 0
                  then (lg, iq_mix c timestep position_of_next_slice pulse wfm)
                  else (lg, Inr wfm)))"

text \<open>The body of the inner loop, on the loop variables \<open>wfm_slice\<close>, \<open>last_wfm_length\<close>
  and \<open>readout_index\<close>; line 270 adds in place. The source assigns \<open>readout_index\<close> before
  the mixing; an exception of the mixing leaves the call, so the order cannot be observed.\<close>

type_synonym slice_state = "ndarray \<times> nat \<times> nat"

definition process_pulse ::
  "casting \<Rightarrow> real \<Rightarrow> bool \<Rightarrow> kwargs \<Rightarrow> nat \<Rightarrow> slice_state \<Rightarrow> Pulse \<Rightarrow> log \<times> (exn + slice_state)"
where
  "process_pulse c sr IQ_mixing kw position_of_next_slice st pulse =
     (case st of (wfm_slice, last_wfm_length, readout_index) \<Rightarrow>
      (case render_pulse c sr IQ_mixing kw position_of_next_slice pulse of
         (lg, Inl e) \<Rightarrow> (lg, Inl e)
       | (lg, Inr wfm) \<Rightarrow>
           let readout_index' =
                 (if ptype pulse = Readout then position_of_next_slice else readout_index);
               wfm_slice' =
                 (if len wfm_slice < len wfm then resize wfm_slice (len wfm) else wfm_slice);
               wfm' = resize wfm (len wfm_slice')
           in (case inplace c (\<lambda>x y. x + y) wfm_slice' wfm' of
                 Inl e \<Rightarrow> (lg, Inl e)
               | Inr wfm_slice'' \<Rightarrow> (lg, Inr (wfm_slice'', len wfm, readout_index')))))"

fun run_pulses ::
  "casting \<Rightarrow> real \<Rightarrow> bool \<Rightarrow> kwargs \<Rightarrow> nat \<Rightarrow> slice_state \<Rightarrow> Pulse list \<Rightarrow> log \<times> (exn + slice_state)"
where
  "run_pulses c sr IQ_mixing kw pos st [] = ([], Inr st)"
| "run_pulses c sr IQ_mixing kw pos st (pulse # rest) =
     (case process_pulse c sr IQ_mixing kw pos st pulse of
        (lg, Inl e) \<Rightarrow> (lg, Inl e)
      | (lg, Inr st') \<Rightarrow>
          (case run_pulses c sr IQ_mixing kw pos st' rest of (lg', r) \<Rightarrow> (lg @ lg', r)))"

subsubsection \<open>\_\_call\_\_: one time slice, and the sequence\<close>

text \<open>The body of the outer loop, on \<open>full_waveform\<close>, \<open>position_of_next_slice\<close> and
  \<open>readout_index\<close>. \<open>wfm_slice_filled\<close> is \<^verbatim>\<open>np.zeros_like(full_waveform)\<close> with the
  slice assigned to its place (an assignment casts to the dtype of the target); line 277
  adds it in place.\<close>

type_synonym call_state = "ndarray \<times> nat \<times> nat"

definition process_slice ::
  "casting \<Rightarrow> real \<Rightarrow> bool \<Rightarrow> kwargs \<Rightarrow> call_state \<Rightarrow> Pulse list \<Rightarrow> log \<times> (exn + call_state)"
where
  "process_slice c sr IQ_mixing kw st time_slice =
     (case st of (full_waveform, position_of_next_slice, readout_index) \<Rightarrow>
      (case run_pulses c sr IQ_mixing kw position_of_next_slice (np_zeros 0, 0, readout_index)
              time_slice of
         (lg, Inl e) \<Rightarrow> (lg, Inl e)
       | (lg, Inr (wfm_slice, last_wfm_length, readout_index')) \<Rightarrow>
           let new_waveform_length =
                 max (len full_waveform) (position_of_next_slice + len wfm_slice);
               full_waveform' = resize full_waveform new_waveform_length;
               wfm_slice_filled =
                 NdArray (dtype_of full_waveform')
                   (replicate position_of_next_slice 0 @
                    map (astype (dtype_of full_waveform')) (items wfm_slice) @
                    replicate (new_waveform_length - (position_of_next_slice + len wfm_slice)) 0)
           in (case inplace c (\<lambda>x y. x + y) full_waveform' wfm_slice_filled of
                 Inl e \<Rightarrow> (lg, Inl e)
               | Inr full_waveform'' \<Rightarrow>
                   (lg, Inr (full_waveform'', position_of_next_slice + last_wfm_length,
                             readout_index')))))"

fun run_slices ::
  "casting \<Rightarrow> real \<Rightarrow> bool \<Rightarrow> kwargs \<Rightarrow> call_state \<Rightarrow> Pulse list list \<Rightarrow> log \<times> (exn + call_state)"
where
  "run_slices c sr IQ_mixing kw st [] = ([], Inr st)"
| "run_slices c sr IQ_mixing kw st (time_slice # rest) =
     (case process_slice c sr IQ_mixing kw st time_slice of
        (lg, Inl e) \<Rightarrow> (lg, Inl e)
      | (lg, Inr st') \<Rightarrow>
          (case run_slices c sr IQ_mixing kw st' rest of (lg', r) \<Rightarrow> (lg @ lg', r)))"

text \<open>Lines 284 and 285: \<^verbatim>\<open>np.append(0, a)\<close> and \<^verbatim>\<open>np.append(a, 0)\<close>, new arrays of the
  dtype that the int \<open>0\<close> and \<open>a\<close> promote to.\<close>

definition pad_zeros :: "ndarray \<Rightarrow> ndarray" where
  "pad_zeros a = NdArray (promote Int64 (dtype_of a)) (0 # items a @ [0])"

text \<open>\<^verbatim>\<open>PulseSequence.__call__\<close>. Line 282 adds \<open>dc_corr\<close> in place. The outcome
  \<open>Inr None\<close> is the bare \<^verbatim>\<open>return\<close>, \<open>Inr (Some (waveform, index))\<close> the returned
  pair.\<close>

definition call ::
  "casting \<Rightarrow> store \<Rightarrow> PulseSequence \<Rightarrow> bool \<Rightarrow> kwargs \<Rightarrow>
     PulseSequence \<times> log \<times> (exn + (ndarray \<times> nat) option)"
where
  "call c h self IQ_mixing kw =
     (if variables self \<noteq> dom kw then (self, [(ERROR, ArgumentsMismatch)], Inr None)
      else case samplerate self of
        None \<Rightarrow> (self, [(ERROR, NoSamplerate)], Inr None)
      | Some sr \<Rightarrow>
          if sr = 0 then (self, [(ERROR, NoSamplerate)], Inr None)
          else
            (case run_slices c sr IQ_mixing kw (np_zeros 0, 0, 0) (map (map h) (sequence self)) of
               (lg, Inl e) \<Rightarrow> (self, lg, Inl e)
             | (lg, Inr (full_waveform, position_of_next_slice, readout_index)) \<Rightarrow>
                 (case iadd_scalar c full_waveform (dc_corr self) of
                    Inl e \<Rightarrow> (self, lg, Inl e)
                  | Inr full_waveform' \<Rightarrow>
                      (self, lg, Inr (Some (pad_zeros full_waveform', readout_index + 1))))))"

subsubsection \<open>add\<close>

text \<open>\<^verbatim>\<open>PulseSequence.add\<close>. The method returns \<open>self\<close>, the first component here;
  \<^verbatim>\<open>self._sequence[-1]\<close> on an empty list raises \<^verbatim>\<open>IndexError\<close>.\<close>

definition add :: "store \<Rightarrow> PulseSequence \<Rightarrow> ref \<Rightarrow> bool \<Rightarrow> PulseSequence \<times> log \<times> (exn + unit)" where
  "add h self pulse skip =
     (case name (h pulse) of
        PyStr nm \<Rightarrow>
          if pulses self nm \<noteq> None \<and> pulses self nm \<noteq> Some pulse
          then (self, [(ERROR, DuplicatePulseName nm)], Inr ())
          else
            let s1 = (if pulses self nm = None
                      then self\<lparr>pulses := (pulses self)(nm \<mapsto> pulse)\<rparr> else self);
                s2 = (case length_p (h pulse) of
                        Variable args f \<Rightarrow> s1\<lparr>variables := variables s1 \<union> set args\<rparr>
                      | Fixed l \<Rightarrow> s1);
                s3 = (if \<not> next_pulse_is_parallel s2
                      then s2\<lparr>sequence := sequence s2 @ [[]]\<rparr> else s2)
            in if sequence s3 = [] then (s3, [], Inl IndexError)
               else (s3\<lparr>sequence := butlast (sequence s3) @ [last (sequence s3) @ [pulse]],
                        next_pulse_is_parallel := skip\<rparr>, [], Inr ())
      | _ \<Rightarrow> (self, [(ERROR, BadPulseName)], Inr ()))"

subsection \<open>Example pulses and sequences\<close>

text \<open>\<^verbatim>\<open>Pulse(d, name=nm, iq_frequency=f, iq_dc_offset=off)\<close>, the other arguments at their
  defaults (the rect shape, amplitude 1, phase 0, angle 90, type Pulse).\<close>

definition ex_rect :: "string \<Rightarrow> real \<Rightarrow> pynum \<Rightarrow> pyscalar \<Rightarrow> Pulse" where
  "ex_rect nm d f off =
     \<lparr>length_p = Fixed d, shape = ShapeLib_rect, name = PyStr nm, amplitude = IntNum 1, phase = 0,
      iq_frequency = f, iq_dc_offset = off, iq_angle = 90, ptype = Pulse\<rparr>"

text \<open>The pulse that \<^verbatim>\<open>add_wait\<close> builds:
  \<^verbatim>\<open>Pulse(time, shape=ShapeLib.zero, name=name, ptype=PulseType.Wait)\<close>.\<close>

definition ex_wait :: "string \<Rightarrow> pulse_length \<Rightarrow> Pulse" where
  "ex_wait nm plen =
     \<lparr>length_p = plen, shape = ShapeLib_zero, name = PyStr nm, amplitude = IntNum 1, phase = 0,
      iq_frequency = IntNum 0, iq_dc_offset = RealNum (IntNum 0), iq_angle = 90, ptype = Wait\<rparr>"

text \<open>The pulse that \<^verbatim>\<open>add_readout\<close> builds without a sample:
  \<^verbatim>\<open>Pulse(0., shape=ShapeLib.zero, name="readout[0]", ptype=PulseType.Readout)\<close>.\<close>

definition ex_readout :: Pulse where
  "ex_readout =
     \<lparr>length_p = Fixed 0, shape = ShapeLib_zero, name = PyStr ''readout[0]'',
      amplitude = IntNum 1, phase = 0, iq_frequency = IntNum 0,
      iq_dc_offset = RealNum (IntNum 0), iq_angle = 90, ptype = Readout\<rparr>"

text \<open>A store of ten pulse objects:
  \<^item> 0: a wait of 3 s; 1: a rect pulse of 3 s with IQ frequency 1.0 Hz; 2: the readout;
  \<^item> 3 and 4: rect pulses A of 4 s and B of 2 s; 5: a rect pulse of 0.25 s;
  \<^item> 6: a wait of -1 s; 7: a wait of \<open>t\<close> seconds, \<open>lambda t: t\<close>;
  \<^item> 8: a pulse whose name is \<open>None\<close>; 9: a second object named \<open>A\<close>.\<close>

definition ex_store :: store where
  "ex_store r =
     (if r = 0 then ex_wait ''wait[0]'' (Fixed 3)
      else if r = 1 then ex_rect ''pi'' 3 (FloatNum 1) (RealNum (IntNum 0))
      else if r = 2 then ex_readout
      else if r = 3 then ex_rect ''A'' 4 (IntNum 0) (RealNum (IntNum 0))
      else if r = 4 then ex_rect ''B'' 2 (IntNum 0) (RealNum (IntNum 0))
      else if r = 5 then ex_rect ''short'' (1 / 4) (IntNum 0) (RealNum (IntNum 0))
      else if r = 6 then ex_wait ''wait[1]'' (Fixed (- 1))
      else if r = 7 then
        ex_wait ''wait[2]'' (Variable [''t''] (\<lambda>kw. case kw ''t'' of Some t \<Rightarrow> t | None \<Rightarrow> 0))
      else if r = 8 then (ex_rect ''A'' 1 (IntNum 0) (RealNum (IntNum 0)))\<lparr>name := PyNone\<rparr>
      else ex_rect ''A'' 1 (IntNum 0) (RealNum (IntNum 0)))"

text \<open>\<^verbatim>\<open>PulseSequence(samplerate=sr, dc_corr=dc)\<close> with no sample.\<close>

definition PulseSequence_init :: "real option \<Rightarrow> pyscalar \<Rightarrow> PulseSequence" where
  "PulseSequence_init sr dc =
     \<lparr>sequence = [], next_pulse_is_parallel = False, pulses = Map.empty, variables = {},
      dc_corr = dc, samplerate = sr\<rparr>"

text \<open>Chained calls \<^verbatim>\<open>seq.add(p1, skip1).add(p2, skip2)...\<close>: the state of the sequence
  after them, or when one of them raises.\<close>

fun adds :: "store \<Rightarrow> PulseSequence \<Rightarrow> (ref \<times> bool) list \<Rightarrow> PulseSequence" where
  "adds h self [] = self"
| "adds h self ((pulse, skip) # rest) =
     (case add h self pulse skip of
        (self', lg, Inl e) \<Rightarrow> self'
      | (self', lg, Inr u) \<Rightarrow> adds h self' rest)"

text \<open>The sequence \<^verbatim>\<open>PulseSequence(samplerate=1.0)\<close>, with \<open>dc_corr\<close> the int 0.\<close>

definition ex_seq0 :: PulseSequence where
  "ex_seq0 = PulseSequence_init (Some 1) (RealNum (IntNum 0))"

text \<open>A sequence with the variable wait 7, and one where pulse A was added with
  \<^verbatim>\<open>skip=True\<close>.\<close>

definition ex_seq_var :: PulseSequence where
  "ex_seq_var = adds ex_store ex_seq0 [(7, False)]"

definition ex_seq_A :: PulseSequence where
  "ex_seq_A = adds ex_store ex_seq0 [(3, True)]"

text \<open>Sequences over the example store, each built by chained calls of \<^verbatim>\<open>add\<close>:
  \<^item> \<open>ex_seq_par\<close>: A with \<^verbatim>\<open>skip=True\<close>, then B, then the IQ pulse (slices \<open>[A, B]\<close>
    and \<open>[pi]\<close>);
  \<^item> \<open>ex_seq_ro\<close>: the wait, A, the readout;
  \<^item> \<open>ex_seq_neg\<close>: A, the wait of -1 s, B;
  \<^item> \<open>ex_seq_iq\<close>: the wait, the IQ pulse.\<close>

definition ex_seq_par :: PulseSequence where
  "ex_seq_par = adds ex_store ex_seq0 [(3, True), (4, False), (1, False)]"

definition ex_seq_ro :: PulseSequence where
  "ex_seq_ro = adds ex_store ex_seq0 [(0, False), (3, False), (2, False)]"

definition ex_seq_neg :: PulseSequence where
  "ex_seq_neg = adds ex_store ex_seq0 [(3, False), (6, False), (4, False)]"

definition ex_seq_iq :: PulseSequence where
  "ex_seq_iq = adds ex_store ex_seq0 [(0, False), (1, False)]"

section \<open>Properties\<close>

subsection \<open>The constructor\<close>

text \<open>
  Claim C10. Constructing a Pulse with a length that is neither a float nor callable raises
  ValueError; in particular the int 5 is rejected, so a length is passed as a float or as a
  function.
\<close>

theorem Pulse_init_rejects_non_float:
  "(\<not> isinstance_float plen \<and> \<not> callable plen \<longrightarrow>
      Pulse_init plen shp nm amp ph iq_freq iq_off iq_ang pt = Inl ValueError)
   \<and> Pulse_init (PyInt 5) shp nm amp ph iq_freq iq_off iq_ang pt = Inl ValueError"
  by (simp add: Pulse_init_def)

theorem Pulse_init_rejects_non_float_witness:
  "\<not> isinstance_float (PyInt 5) \<and> \<not> callable (PyInt 5)
   \<and> Pulse_init (PyInt 5) ShapeLib_rect (PyStr ''pi'') (IntNum 1) 0 (IntNum 0)
        (RealNum (IntNum 0)) 90 Pulse = Inl ValueError
   \<and> Pulse_init (PyStr ''1.0'') ShapeLib_rect (PyStr ''pi'') (IntNum 1) 0 (IntNum 0)
        (RealNum (IntNum 0)) 90 Pulse = Inl ValueError
   \<and> (\<exists>p. Pulse_init (PyFloat 5) ShapeLib_rect (PyStr ''pi'') (IntNum 1) 0 (IntNum 0)
               (RealNum (IntNum 0)) 90 Pulse = Inr p)"
  using Pulse_init_rejects_non_float [of "PyInt 5" ShapeLib_rect "PyStr ''pi''" "IntNum 1" 0
      "IntNum 0" "RealNum (IntNum 0)" 90 Pulse]
    Pulse_init_rejects_non_float [of "PyStr ''1.0''" ShapeLib_rect "PyStr ''pi''" "IntNum 1" 0
      "IntNum 0" "RealNum (IntNum 0)" 90 Pulse]
  by (simp add: Pulse_init_def)

subsection \<open>Evaluation of the examples\<close>

lemmas eval_defs =
  call_def process_slice_def process_pulse_def render_pulse_def resolve_length_def
  create_wfm_def Pulse_call_def Shape_call_def ShapeLib_rect_def ShapeLib_zero_def
  np_arange_def int_round_def iq_mix_def iq_time_def inplace_def iadd_scalar_def
  iadd_nonzero_def can_cast_def promote_def np_zeros_def pad_zeros_def trunc_def
  eval_nat_numeral

lemmas ex_defs =
  ex_store_def ex_rect_def ex_wait_def ex_readout_def ex_seq0_def PulseSequence_init_def add_def

subsection \<open>Parameter mismatch\<close>

text \<open>
  Claim C4. Evaluating a sequence with keyword arguments whose names are not exactly the
  declared variable names logs the mismatch as an error and returns \<open>None\<close> (no waveform);
  the sequence is left as it was.
\<close>

theorem call_parameter_mismatch:
  "variables self \<noteq> dom kw \<Longrightarrow>
     call c h self IQ_mixing kw = (self, [(ERROR, ArgumentsMismatch)], Inr None)"
  by (simp add: call_def)

theorem call_parameter_mismatch_witness:
  "variables ex_seq_var \<noteq> dom (Map.empty :: kwargs)
   \<and> variables ex_seq_var \<noteq> dom [''t'' \<mapsto> 1 :: real, ''u'' \<mapsto> 2]
   \<and> call SameKind ex_store ex_seq_var False Map.empty
       = (ex_seq_var, [(ERROR, ArgumentsMismatch)], Inr None)
   \<and> call Unsafe ex_store ex_seq_var False [''t'' \<mapsto> 1, ''u'' \<mapsto> 2]
       = (ex_seq_var, [(ERROR, ArgumentsMismatch)], Inr None)"
proof -
  let ?s = ex_seq_var
  have v: "variables ?s = {''t''}"
    by (simp add: ex_seq_var_def ex_defs)
  have a: "variables ?s \<noteq> dom (Map.empty :: kwargs)"
    by (simp add: v)
  have b: "variables ?s \<noteq> dom [''t'' \<mapsto> 1 :: real, ''u'' \<mapsto> 2]"
    by (simp add: v)
  show ?thesis
    using a b call_parameter_mismatch [OF a, of SameKind ex_store False]
      call_parameter_mismatch [OF b, of Unsafe ex_store False]
    by simp
qed

subsection \<open>The empty sequence\<close>




subsection \<open>Appending a pulse\<close>

text \<open>
  Claim C9. \<^verbatim>\<open>add\<close> with a pulse whose name is \<open>None\<close> or not a string, or whose name is
  registered for a different pulse object, logs an error and returns the sequence
  unchanged. Adding the object that is registered under its name again is no error: the
  registry is unchanged and the pulse is scheduled once more (in the last slice when the
  previous call asked for a parallel pulse, in a new slice otherwise).
\<close>

theorem add_name_checks:
  "(\<not> isinstance_str (name (h pulse)) \<longrightarrow>
      add h self pulse skip = (self, [(ERROR, BadPulseName)], Inr ()))
   \<and> (\<forall>nm other. name (h pulse) = PyStr nm \<and> pulses self nm = Some other \<and> other \<noteq> pulse \<longrightarrow>
         add h self pulse skip = (self, [(ERROR, DuplicatePulseName nm)], Inr ()))
   \<and> (\<forall>nm. name (h pulse) = PyStr nm \<and> pulses self nm = Some pulse
            \<and> (next_pulse_is_parallel self \<longrightarrow> sequence self \<noteq> []) \<longrightarrow>
         (\<exists>self'. add h self pulse skip = (self', [], Inr ())
            \<and> pulses self' = pulses self
            \<and> variables self \<subseteq> variables self'
            \<and> sequence self' =
                (if next_pulse_is_parallel self
                 then butlast (sequence self) @ [last (sequence self) @ [pulse]]
                 else sequence self @ [[pulse]])))"
proof (intro conjI allI impI)
  assume "\<not> isinstance_str (name (h pulse))"
  then show "add h self pulse skip = (self, [(ERROR, BadPulseName)], Inr ())"
    by (cases "name (h pulse)") (simp_all add: add_def)
next
  fix nm other
  assume "name (h pulse) = PyStr nm \<and> pulses self nm = Some other \<and> other \<noteq> pulse"
  then show "add h self pulse skip = (self, [(ERROR, DuplicatePulseName nm)], Inr ())"
    by (simp add: add_def)
next
  fix nm
  assume a: "name (h pulse) = PyStr nm \<and> pulses self nm = Some pulse
     \<and> (next_pulse_is_parallel self \<longrightarrow> sequence self \<noteq> [])"
  show "\<exists>self'. add h self pulse skip = (self', [], Inr ())
            \<and> pulses self' = pulses self
            \<and> variables self \<subseteq> variables self'
            \<and> sequence self' =
                (if next_pulse_is_parallel self
                 then butlast (sequence self) @ [last (sequence self) @ [pulse]]
                 else sequence self @ [[pulse]])"
  proof (cases "length_p (h pulse)")
    case (Fixed l)
    with a show ?thesis by (auto simp add: add_def Let_def)
  next
    case (Variable args f)
    with a show ?thesis by (auto simp add: add_def Let_def)
  qed
qed

theorem add_name_checks_witness:
  "\<not> isinstance_str (name (ex_store 8))
   \<and> add ex_store ex_seq_A 8 False
       = (ex_seq_A, [(ERROR, BadPulseName)], Inr ())
   \<and> name (ex_store 9) = PyStr ''A''
   \<and> pulses ex_seq_A ''A'' = Some 3
   \<and> (3::nat) \<noteq> 9
   \<and> add ex_store ex_seq_A 9 False
       = (ex_seq_A,
          [(ERROR, DuplicatePulseName ''A'')], Inr ())
   \<and> name (ex_store 3) = PyStr ''A''
   \<and> next_pulse_is_parallel ex_seq_A
   \<and> sequence ex_seq_A = [[3]]
   \<and> (\<exists>self'. add ex_store ex_seq_A 3 False
                 = (self', [], Inr ())
        \<and> pulses self' = pulses ex_seq_A
        \<and> sequence self' = [[3, 3]])"
proof -
  let ?s = ex_seq_A
  have n8: "\<not> isinstance_str (name (ex_store 8))"
    by (simp add: ex_store_def ex_rect_def)
  have n9: "name (ex_store 9) = PyStr ''A''"
    by (simp add: ex_store_def ex_rect_def)
  have n3: "name (ex_store 3) = PyStr ''A''"
    by (simp add: ex_store_def ex_rect_def)
  have p: "pulses ?s ''A'' = Some 3"
    by (simp add: ex_seq_A_def ex_defs)
  have q: "next_pulse_is_parallel ?s"
    by (simp add: ex_seq_A_def ex_defs)
  have sq: "sequence ?s = [[3]]"
    by (simp add: ex_seq_A_def ex_defs)
  note t8 = add_name_checks [of ex_store 8 ?s False]
  note t9 = add_name_checks [of ex_store 9 ?s False]
  note t3 = add_name_checks [of ex_store 3 ?s False]
  have r8: "add ex_store ?s 8 False = (?s, [(ERROR, BadPulseName)], Inr ())"
    using t8 n8 by blast
  have r9: "add ex_store ?s 9 False = (?s, [(ERROR, DuplicatePulseName ''A'')], Inr ())"
    using t9 n9 p by simp
  have r3: "\<exists>self'. add ex_store ?s 3 False = (self', [], Inr ())
        \<and> pulses self' = pulses ?s \<and> sequence self' = [[3, 3]]"
  proof -
    have h3: "name (ex_store 3) = PyStr ''A'' \<and> pulses ?s ''A'' = Some 3
        \<and> (next_pulse_is_parallel ?s \<longrightarrow> sequence ?s \<noteq> [])"
      using n3 p sq by simp
    from t3 [THEN conjunct2, THEN conjunct2, rule_format, OF h3]
    show ?thesis using q sq by auto
  qed
  have ne: "(3::nat) \<noteq> 9" by simp
  from n8 r8 n9 p ne r9 n3 q sq r3 show ?thesis by blast
qed

subsection \<open>Facts about the loops of \_\_call\_\_\<close>

lemma process_pulse_Inr:
  assumes "process_pulse c sr iq kw pos (ws, l, ridx) p = (lg, Inr (ws', l', ridx'))"
  shows "\<exists>wfm. render_pulse c sr iq kw pos p = (lg, Inr wfm) \<and> l' = len wfm
           \<and> ridx' = (if ptype p = Readout then pos else ridx)"
  using assms
  by (auto simp add: process_pulse_def Let_def split: prod.splits sum.splits)

lemma run_pulses_snoc:
  "run_pulses c sr iq kw pos st (ps @ [p]) =
     (case run_pulses c sr iq kw pos st ps of
        (lg, Inl e) \<Rightarrow> (lg, Inl e)
      | (lg, Inr st') \<Rightarrow>
          (case process_pulse c sr iq kw pos st' p of (lg', r) \<Rightarrow> (lg @ lg', r)))"
proof (induction ps arbitrary: st)
  case Nil
  show ?case by (simp split: prod.splits sum.splits)
next
  case (Cons q ps)
  show ?case by (simp add: Cons.IH split: prod.splits sum.splits)
qed

lemma run_pulses_readout:
  "run_pulses c sr iq kw pos (ws, l, ridx) ps = (lg, Inr (ws', l', ridx')) \<Longrightarrow>
     ridx' = (if \<exists>p\<in>set ps. ptype p = Readout then pos else ridx)"
proof (induction ps arbitrary: ws l ridx lg)
  case Nil
  then show ?case by simp
next
  case (Cons p ps)
  from Cons.prems obtain lg1 ws1 l1 r1 lg2 where
    p: "process_pulse c sr iq kw pos (ws, l, ridx) p = (lg1, Inr (ws1, l1, r1))" and
    r: "run_pulses c sr iq kw pos (ws1, l1, r1) ps = (lg2, Inr (ws', l', ridx'))"
    by (auto split: prod.splits sum.splits)
  from process_pulse_Inr [OF p] have r1: "r1 = (if ptype p = Readout then pos else ridx)"
    by blast
  from Cons.IH [OF r] r1 show ?case by auto
qed

lemma process_slice_Inr:
  assumes "process_slice c sr iq kw (full, pos, ridx) sl = (lg, Inr (full', pos', ridx'))"
  shows "\<exists>ws l. run_pulses c sr iq kw pos (np_zeros 0, 0, ridx) sl = (lg, Inr (ws, l, ridx'))
           \<and> pos' = pos + l"
  using assms
  by (auto simp add: process_slice_def Let_def split: prod.splits sum.splits)

lemma process_slice_last:
  assumes "process_slice c sr iq kw (full, pos, ridx) (ps @ [p]) = (lg, Inr (full', pos', ridx'))"
  shows "\<exists>lg' wfm. render_pulse c sr iq kw pos p = (lg', Inr wfm) \<and> pos' = pos + len wfm"
proof -
  from process_slice_Inr [OF assms] obtain ws l where
    r: "run_pulses c sr iq kw pos (np_zeros 0, 0, ridx) (ps @ [p]) = (lg, Inr (ws, l, ridx'))" and
    l: "pos' = pos + l"
    by blast
  from r obtain lg1 ws1 l1 r1 lg2 where
    "process_pulse c sr iq kw pos (ws1, l1, r1) p = (lg2, Inr (ws, l, ridx'))"
    by (auto simp add: run_pulses_snoc split: prod.splits sum.splits)
  from process_pulse_Inr [OF this] l show ?thesis by blast
qed

lemma process_slice_readout:
  assumes "process_slice c sr iq kw (full, pos, ridx) sl = (lg, Inr (full', pos', ridx'))"
  shows "ridx' = (if \<exists>p\<in>set sl. ptype p = Readout then pos else ridx)"
proof -
  from process_slice_Inr [OF assms] obtain ws l where
    "run_pulses c sr iq kw pos (np_zeros 0, 0, ridx) sl = (lg, Inr (ws, l, ridx'))"
    by blast
  from run_pulses_readout [OF this] show ?thesis .
qed

lemma run_slices_Cons_Inr:
  assumes "run_slices c sr iq kw st (sl # rest) = (lg, Inr st'')"
  shows "\<exists>lg1 lg2 st'. process_slice c sr iq kw st sl = (lg1, Inr st')
           \<and> run_slices c sr iq kw st' rest = (lg2, Inr st'')"
  using assms by (auto split: prod.splits sum.splits)

lemma run_slices_no_readout:
  "run_slices c sr iq kw (full, pos, ridx) sls = (lg, Inr (full', pos', ridx')) \<Longrightarrow>
   \<forall>sl\<in>set sls. \<forall>p\<in>set sl. ptype p \<noteq> Readout \<Longrightarrow> ridx' = ridx"
proof (induction sls arbitrary: full pos ridx lg)
  case Nil
  then show ?case by simp
next
  case (Cons sl sls)
  from run_slices_Cons_Inr [OF Cons.prems(1)] obtain lg1 lg2 full1 pos1 ridx1 where
    p: "process_slice c sr iq kw (full, pos, ridx) sl = (lg1, Inr (full1, pos1, ridx1))" and
    r: "run_slices c sr iq kw (full1, pos1, ridx1) sls = (lg2, Inr (full', pos', ridx'))"
    by (metis prod_cases3)
  from process_slice_readout [OF p] Cons.prems(2) have "ridx1 = ridx" by auto
  moreover from Cons.IH [OF r] Cons.prems(2) have "ridx' = ridx1" by auto
  ultimately show ?case by simp
qed

lemma call_Some:
  assumes "call c h self iq kw = (self', lg, Inr (Some (waveform, idx)))"
  shows "\<exists>sr full pos ridx. samplerate self = Some sr \<and> sr \<noteq> 0
           \<and> run_slices c sr iq kw (np_zeros 0, 0, 0) (map (map h) (sequence self))
                = (lg, Inr (full, pos, ridx))
           \<and> idx = ridx + 1"
  using assms
  by (auto simp add: call_def split: if_splits option.splits prod.splits sum.splits)

subsection \<open>The slice cursor and the readout index\<close>

text \<open>
  Claim C2. When a slice has been processed, \<open>position_of_next_slice\<close> has advanced by
  the length of the array rendered for the pulse that was appended to the slice last,
  whatever the lengths of the pulses before it in the slice.
\<close>

theorem slice_cursor_advances_by_last_pulse:
  "process_slice c sr IQ_mixing kw (full_waveform, position_of_next_slice, readout_index) (ps @ [p])
      = (lg, Inr (full_waveform', position_of_next_slice', readout_index')) \<Longrightarrow>
   \<exists>lg' wfm. render_pulse c sr IQ_mixing kw position_of_next_slice p = (lg', Inr wfm)
      \<and> position_of_next_slice' = position_of_next_slice + len wfm"
  by (rule process_slice_last)

theorem slice_cursor_advances_by_last_pulse_witness:
  "process_slice SameKind 1 False Map.empty (np_zeros 0, 0, 0) ([ex_store 3] @ [ex_store 4])
      = ([], Inr (NdArray Float64 [2, 2, 1, 1], 2, 0))
   \<and> render_pulse SameKind 1 False Map.empty 0 (ex_store 3)
       = ([], Inr (NdArray Int64 [1, 1, 1, 1]))
   \<and> (\<exists>lg' wfm. render_pulse SameKind 1 False Map.empty 0 (ex_store 4) = (lg', Inr wfm)
         \<and> (2::nat) = 0 + len wfm)
   \<and> sequence ex_seq_par = [[3, 4], [1]]
   \<and> call SameKind ex_store ex_seq_par False Map.empty
       = (ex_seq_par, [], Inr (Some (NdArray Float64 [0, 2, 2, 2, 2, 1, 0], 1)))
   \<and> call Unsafe ex_store ex_seq_par False Map.empty
       = (ex_seq_par, [], Inr (Some (NdArray Float64 [0, 2, 2, 2, 2, 1, 0], 1)))"
proof -
  have a: "process_slice SameKind 1 False Map.empty (np_zeros 0, 0, 0) ([ex_store 3] @ [ex_store 4])
      = ([], Inr (NdArray Float64 [2, 2, 1, 1], 2, 0))"
    by (simp add: eval_defs ex_defs)
  have b: "render_pulse SameKind 1 False Map.empty 0 (ex_store 3)
       = ([], Inr (NdArray Int64 [1, 1, 1, 1]))"
    by (simp add: eval_defs ex_defs)
  have s: "sequence ex_seq_par = [[3, 4], [1]]"
    by (simp add: ex_seq_par_def ex_defs)
  have v: "variables ex_seq_par = {}" "samplerate ex_seq_par = Some 1"
    "dc_corr ex_seq_par = RealNum (IntNum 0)"
    by (simp_all add: ex_seq_par_def ex_defs)
  have d: "call SameKind ex_store ex_seq_par False Map.empty
       = (ex_seq_par, [], Inr (Some (NdArray Float64 [0, 2, 2, 2, 2, 1, 0], 1)))"
    by (simp add: call_def s v) (simp add: eval_defs ex_defs)
  have d': "call Unsafe ex_store ex_seq_par False Map.empty
       = (ex_seq_par, [], Inr (Some (NdArray Float64 [0, 2, 2, 2, 2, 1, 0], 1)))"
    by (simp add: call_def s v) (simp add: eval_defs ex_defs)
  from slice_cursor_advances_by_last_pulse [OF a] a b s d d' show ?thesis by blast
qed

text \<open>
  Claim C3. When the sequence starts with two slices of one pulse each, neither a readout,
  the third slice holds the (only) readout pulse of the sequence, and the evaluation returns
  a waveform, the returned index is \<open>L0 + L1 + 1\<close> for the lengths \<open>L0\<close> and \<open>L1\<close> of
  the arrays rendered for the first two pulses. When the sequence holds no readout pulse
  and the evaluation returns a waveform, the returned index is 1.
\<close>

theorem call_readout_index:
  "(sequence self = [a] # [b] # sl # rest
      \<and> ptype (h a) \<noteq> Readout \<and> ptype (h b) \<noteq> Readout
      \<and> (\<exists>r\<in>set sl. ptype (h r) = Readout)
      \<and> (\<forall>sl'\<in>set rest. \<forall>r\<in>set sl'. ptype (h r) \<noteq> Readout)
      \<and> call c h self IQ_mixing kw = (self', lg, Inr (Some (waveform, idx)))
    \<longrightarrow> (\<exists>sr lg0 w0 lg1 w1. samplerate self = Some sr
            \<and> render_pulse c sr IQ_mixing kw 0 (h a) = (lg0, Inr w0)
            \<and> render_pulse c sr IQ_mixing kw (len w0) (h b) = (lg1, Inr w1)
            \<and> idx = len w0 + len w1 + 1))
   \<and> ((\<forall>sl'\<in>set (sequence self). \<forall>r\<in>set sl'. ptype (h r) \<noteq> Readout)
      \<and> call c h self IQ_mixing kw = (self', lg, Inr (Some (waveform, idx)))
    \<longrightarrow> idx = 1)"
proof (intro conjI impI)
  assume asm: "sequence self = [a] # [b] # sl # rest
      \<and> ptype (h a) \<noteq> Readout \<and> ptype (h b) \<noteq> Readout
      \<and> (\<exists>r\<in>set sl. ptype (h r) = Readout)
      \<and> (\<forall>sl'\<in>set rest. \<forall>r\<in>set sl'. ptype (h r) \<noteq> Readout)
      \<and> call c h self IQ_mixing kw = (self', lg, Inr (Some (waveform, idx)))"
  then have sq: "sequence self = [a] # [b] # sl # rest" by blast
  from asm call_Some obtain sr full pos ridx where
    sr: "samplerate self = Some sr" and
    run: "run_slices c sr IQ_mixing kw (np_zeros 0, 0, 0) (map (map h) (sequence self))
            = (lg, Inr (full, pos, ridx))" and
    idx: "idx = ridx + 1"
    by blast
  from run sq have run': "run_slices c sr IQ_mixing kw (np_zeros 0, 0, 0)
       ([h a] # [h b] # map h sl # map (map h) rest) = (lg, Inr (full, pos, ridx))"
    by simp
  from run_slices_Cons_Inr [OF run'] obtain lga lg' f1 p1 r1 where
    s0: "process_slice c sr IQ_mixing kw (np_zeros 0, 0, 0) [h a] = (lga, Inr (f1, p1, r1))" and
    run1: "run_slices c sr IQ_mixing kw (f1, p1, r1) ([h b] # map h sl # map (map h) rest)
             = (lg', Inr (full, pos, ridx))"
    by (metis prod_cases3)
  from run_slices_Cons_Inr [OF run1] obtain lgb lg'' f2 p2 r2 where
    s1: "process_slice c sr IQ_mixing kw (f1, p1, r1) [h b] = (lgb, Inr (f2, p2, r2))" and
    run2: "run_slices c sr IQ_mixing kw (f2, p2, r2) (map h sl # map (map h) rest)
             = (lg'', Inr (full, pos, ridx))"
    by (metis prod_cases3)
  from run_slices_Cons_Inr [OF run2] obtain lgc lg''' f3 p3 r3 where
    s2: "process_slice c sr IQ_mixing kw (f2, p2, r2) (map h sl) = (lgc, Inr (f3, p3, r3))" and
    run3: "run_slices c sr IQ_mixing kw (f3, p3, r3) (map (map h) rest)
             = (lg''', Inr (full, pos, ridx))"
    by (metis prod_cases3)
  from process_slice_last [of c sr IQ_mixing kw "np_zeros 0" 0 0 "[]" "h a"] s0 obtain lg0 w0 where
    w0: "render_pulse c sr IQ_mixing kw 0 (h a) = (lg0, Inr w0)" and p1: "p1 = len w0"
    by auto
  from process_slice_last [of c sr IQ_mixing kw f1 p1 r1 "[]" "h b"] s1 obtain lg1 w1 where
    w1: "render_pulse c sr IQ_mixing kw p1 (h b) = (lg1, Inr w1)" and p2: "p2 = p1 + len w1"
    by auto
  from asm have "\<exists>p\<in>set (map h sl). ptype p = Readout" by auto
  with process_slice_readout [OF s2] have r3: "r3 = p2" by simp
  from asm have "\<forall>sl'\<in>set (map (map h) rest). \<forall>p\<in>set sl'. ptype p \<noteq> Readout" by auto
  with run_slices_no_readout [OF run3] have "ridx = r3" by blast
  with r3 p2 p1 idx have "idx = len w0 + len w1 + 1" by simp
  with sr w0 w1 p1
  show "\<exists>sr lg0 w0 lg1 w1. samplerate self = Some sr
            \<and> render_pulse c sr IQ_mixing kw 0 (h a) = (lg0, Inr w0)
            \<and> render_pulse c sr IQ_mixing kw (len w0) (h b) = (lg1, Inr w1)
            \<and> idx = len w0 + len w1 + 1"
    by blast
next
  assume asm: "(\<forall>sl'\<in>set (sequence self). \<forall>r\<in>set sl'. ptype (h r) \<noteq> Readout)
      \<and> call c h self IQ_mixing kw = (self', lg, Inr (Some (waveform, idx)))"
  with call_Some obtain sr full pos ridx where
    run: "run_slices c sr IQ_mixing kw (np_zeros 0, 0, 0) (map (map h) (sequence self))
            = (lg, Inr (full, pos, ridx))" and
    idx: "idx = ridx + 1"
    by blast
  from asm have "\<forall>sl'\<in>set (map (map h) (sequence self)). \<forall>p\<in>set sl'. ptype p \<noteq> Readout"
    by auto
  with run_slices_no_readout [OF run] have "ridx = 0" by blast
  with idx show "idx = 1" by simp
qed

theorem call_readout_index_witness:
  "sequence ex_seq_ro = [0] # [3] # [2] # []
   \<and> ptype (ex_store 0) \<noteq> Readout \<and> ptype (ex_store 3) \<noteq> Readout \<and> ptype (ex_store 2) = Readout
   \<and> call SameKind ex_store ex_seq_ro False Map.empty
       = (ex_seq_ro, [], Inr (Some (NdArray Float64 [0, 0, 0, 0, 1, 1, 1, 1, 0], 8)))
   \<and> render_pulse SameKind 1 False Map.empty 0 (ex_store 0) = ([], Inr (NdArray Float64 [0, 0, 0]))
   \<and> render_pulse SameKind 1 False Map.empty 3 (ex_store 3)
       = ([], Inr (NdArray Int64 [1, 1, 1, 1]))
   \<and> (8::nat) = 3 + 4 + 1
   \<and> sequence ex_seq_par = [[3, 4], [1]]
   \<and> ptype (ex_store 3) \<noteq> Readout \<and> ptype (ex_store 4) \<noteq> Readout \<and> ptype (ex_store 1) \<noteq> Readout
   \<and> call SameKind ex_store ex_seq_par False Map.empty
       = (ex_seq_par, [], Inr (Some (NdArray Float64 [0, 2, 2, 2, 2, 1, 0], 1)))"
proof -
  have sq: "sequence ex_seq_ro = [0] # [3] # [2] # []"
    by (simp add: ex_seq_ro_def ex_defs)
  have v: "variables ex_seq_ro = {}" "samplerate ex_seq_ro = Some 1"
    "dc_corr ex_seq_ro = RealNum (IntNum 0)"
    by (simp_all add: ex_seq_ro_def ex_defs)
  have ty: "ptype (ex_store 0) \<noteq> Readout" "ptype (ex_store 3) \<noteq> Readout"
    "ptype (ex_store 2) = Readout" "ptype (ex_store 4) \<noteq> Readout" "ptype (ex_store 1) \<noteq> Readout"
    by (simp_all add: ex_defs)
  have r0: "render_pulse SameKind 1 False Map.empty 0 (ex_store 0)
      = ([], Inr (NdArray Float64 [0, 0, 0]))"
    by (simp add: eval_defs ex_defs)
  have r1: "render_pulse SameKind 1 False Map.empty 3 (ex_store 3)
      = ([], Inr (NdArray Int64 [1, 1, 1, 1]))"
    by (simp add: eval_defs ex_defs)
  obtain waveform idx where c: "call SameKind ex_store ex_seq_ro False Map.empty
       = (ex_seq_ro, [], Inr (Some (waveform, idx)))"
    and waveform: "waveform = NdArray Float64 [0, 0, 0, 0, 1, 1, 1, 1, 0]"
    by (simp add: call_def sq v) (simp add: eval_defs ex_defs)
  have h1: "sequence ex_seq_ro = [0] # [3] # [2] # []
      \<and> ptype (ex_store 0) \<noteq> Readout \<and> ptype (ex_store 3) \<noteq> Readout
      \<and> (\<exists>r\<in>set [2]. ptype (ex_store r) = Readout)
      \<and> (\<forall>sl'\<in>set []. \<forall>r\<in>set sl'. ptype (ex_store r) \<noteq> Readout)
      \<and> call SameKind ex_store ex_seq_ro False Map.empty
           = (ex_seq_ro, [], Inr (Some (waveform, idx)))"
    using sq ty c by simp
  from call_readout_index [THEN conjunct1, rule_format, OF h1]
  obtain sr lg0 w0 lg1 w1 where
    e: "samplerate ex_seq_ro = Some sr"
       "render_pulse SameKind sr False Map.empty 0 (ex_store 0) = (lg0, Inr w0)"
       "render_pulse SameKind sr False Map.empty (len w0) (ex_store 3) = (lg1, Inr w1)"
       "idx = len w0 + len w1 + 1"
    by blast
  from e(1) v(2) have sr: "sr = 1" by simp
  from e(2) r0 sr have w0: "w0 = NdArray Float64 [0, 0, 0]" by simp
  then have l0: "len w0 = 3" by simp
  from e(3) r1 sr l0 have w1: "w1 = NdArray Int64 [1, 1, 1, 1]" by simp
  from e(4) w0 w1 have i: "idx = 8" by simp
  have sq2: "sequence ex_seq_par = [[3, 4], [1]]"
    by (simp add: ex_seq_par_def ex_defs)
  have v2: "variables ex_seq_par = {}" "samplerate ex_seq_par = Some 1"
    "dc_corr ex_seq_par = RealNum (IntNum 0)"
    by (simp_all add: ex_seq_par_def ex_defs)
  obtain waveform2 idx2 where c2: "call SameKind ex_store ex_seq_par False Map.empty
       = (ex_seq_par, [], Inr (Some (waveform2, idx2)))"
    and waveform2: "waveform2 = NdArray Float64 [0, 2, 2, 2, 2, 1, 0]"
    by (simp add: call_def sq2 v2) (simp add: eval_defs ex_defs)
  have h2: "(\<forall>sl'\<in>set (sequence ex_seq_par). \<forall>r\<in>set sl'. ptype (ex_store r) \<noteq> Readout)
      \<and> call SameKind ex_store ex_seq_par False Map.empty
           = (ex_seq_par, [], Inr (Some (waveform2, idx2)))"
    using sq2 ty c2 by simp
  from call_readout_index [THEN conjunct2, rule_format, OF h2]
  have i2: "idx2 = 1" .
  from sq ty c waveform i r0 r1 sq2 c2 waveform2 i2 show ?thesis by simp
qed

subsection \<open>Pulses shorter than half a sample\<close>

text \<open>
  Claim C8 fails on the code for a wait of negative length. A wait of -1 s at 1 Hz is
  nonzero and below half a sample period: the warning "... and thus is omitted" is logged,
  and then \<^verbatim>\<open>np.zeros(-1)\<close> on line 242 raises \<^verbatim>\<open>ValueError\<close>, so the sequence of pulse
  A, that wait and pulse B returns no waveform, under either cast rule. The branch of
  lines 235 to 238 omits a pulse of type Pulse of the same length: it is rendered as the
  empty array, with the same warning.
\<close>

theorem negative_wait_raises:
  "resolve_length Map.empty (ex_store 6) = Inr (- 1) \<and> (- 1 :: real) \<noteq> 0
   \<and> (- 1 :: real) < 0.5 * (1 / 1) \<and> ptype (ex_store 6) = Wait
   \<and> render_pulse SameKind 1 False Map.empty 4 (ex_store 6)
       = ([(WARNING, PulseTooShort (PyStr ''wait[1]''))], Inl ValueError)
   \<and> render_pulse Unsafe 1 False Map.empty 4 (ex_store 6)
       = ([(WARNING, PulseTooShort (PyStr ''wait[1]''))], Inl ValueError)
   \<and> sequence ex_seq_neg = [[3], [6], [4]]
   \<and> call SameKind ex_store ex_seq_neg False Map.empty
       = (ex_seq_neg, [(WARNING, PulseTooShort (PyStr ''wait[1]''))], Inl ValueError)
   \<and> call Unsafe ex_store ex_seq_neg False Map.empty
       = (ex_seq_neg, [(WARNING, PulseTooShort (PyStr ''wait[1]''))], Inl ValueError)
   \<and> render_pulse SameKind 1 False Map.empty 4 (ex_rect ''neg'' (- 1) (IntNum 0) (RealNum (IntNum 0)))
       = ([(WARNING, PulseTooShort (PyStr ''neg''))], Inr (NdArray Float64 []))"
proof -
  have sq: "sequence ex_seq_neg = [[3], [6], [4]]"
    by (simp add: ex_seq_neg_def ex_defs)
  have v: "variables ex_seq_neg = {}" "samplerate ex_seq_neg = Some 1"
    "dc_corr ex_seq_neg = RealNum (IntNum 0)"
    by (simp_all add: ex_seq_neg_def ex_defs)
  have e: "call SameKind ex_store ex_seq_neg False Map.empty
       = (ex_seq_neg, [(WARNING, PulseTooShort (PyStr ''wait[1]''))], Inl ValueError)"
    by (simp add: call_def sq v) (simp add: eval_defs ex_defs)
  have e': "call Unsafe ex_store ex_seq_neg False Map.empty
       = (ex_seq_neg, [(WARNING, PulseTooShort (PyStr ''wait[1]''))], Inl ValueError)"
    by (simp add: call_def sq v) (simp add: eval_defs ex_defs)
  have r: "render_pulse SameKind 1 False Map.empty 4 (ex_store 6)
       = ([(WARNING, PulseTooShort (PyStr ''wait[1]''))], Inl ValueError)"
    by (simp add: eval_defs ex_defs)
  have r': "render_pulse Unsafe 1 False Map.empty 4 (ex_store 6)
       = ([(WARNING, PulseTooShort (PyStr ''wait[1]''))], Inl ValueError)"
    by (simp add: eval_defs ex_defs)
  have a: "resolve_length Map.empty (ex_store 6) = Inr (- 1)" "ptype (ex_store 6) = Wait"
    by (simp_all add: resolve_length_def ex_defs)
  have p: "render_pulse SameKind 1 False Map.empty 4
             (ex_rect ''neg'' (- 1) (IntNum 0) (RealNum (IntNum 0)))
       = ([(WARNING, PulseTooShort (PyStr ''neg''))], Inr (NdArray Float64 []))"
    by (simp add: eval_defs ex_defs)
  from a r r' sq e e' p show ?thesis by simp
qed

subsection \<open>The envelope of one pulse\<close>





text \<open>
  Claim C5 fails on the code for the float \<open>0.0\<close>: \<^verbatim>\<open>get_complex_envelope\<close> tests
  \<^verbatim>\<open>self.iq_frequency is 0\<close>, which no float satisfies, so the pulse
  \<^verbatim>\<open>Pulse(1.0, name="A", iq_frequency=0.0, iq_dc_offset=1)\<close> is mixed: at 2 Hz its real
  envelope is \<open>[1, 1]\<close> and its complex envelope is \<open>[2, 2]\<close>. With the int \<open>0\<close> the two
  agree.
\<close>

theorem complex_envelope_of_float_zero:
  "num_val (iq_frequency (ex_rect ''A'' 1 (FloatNum 0) (RealNum (IntNum 1)))) = 0
   \<and> get_envelope (ex_rect ''A'' 1 (FloatNum 0) (RealNum (IntNum 1))) 2
       = Inr (Array (NdArray Int64 [1, 1]))
   \<and> get_complex_envelope (ex_rect ''A'' 1 (FloatNum 0) (RealNum (IntNum 1))) 2
       = Inr (Array (NdArray Complex128 [2, 2]))
   \<and> get_envelope (ex_rect ''A'' 1 (IntNum 0) (RealNum (IntNum 1))) 2
       = Inr (Array (NdArray Int64 [1, 1]))
   \<and> get_complex_envelope (ex_rect ''A'' 1 (IntNum 0) (RealNum (IntNum 1))) 2
       = Inr (Array (NdArray Int64 [1, 1]))"
  by (simp add: get_complex_envelope_def get_envelope_def eval_defs ex_defs)

subsection \<open>The time grid of the IQ mixing\<close>

text \<open>
  Claim C1 fails on the code for every pulse that does not start at sample 0: the grid is
  \<^verbatim>\<open>np.arange(position_of_next_slice, len(wfm))\<close>, which ends at \<open>len(wfm)\<close> and not at
  \<open>position_of_next_slice + len(wfm)\<close>. For a pulse of 3 samples it is \<open>[0, 1, 2]\<close> at
  position 0, the one entry \<open>[2]\<close> at position 2 and empty at position 3. The sequence of
  a wait of 3 s and the IQ pulse of 3 s at 1 Hz cannot be evaluated with IQ mixing: under
  the cast rule \<^verbatim>\<open>unsafe\<close> the product in place of the 3 samples and the empty grid raises
  \<^verbatim>\<open>ValueError\<close>, and under \<^verbatim>\<open>same_kind\<close> the product in place of the \<^verbatim>\<open>int64\<close> samples
  and a complex array raises \<^verbatim>\<open>TypeError\<close>.
\<close>

theorem iq_time_grid_ends_at_len_wfm:
  "iq_time 0 3 1 = [0, 1, 2] \<and> iq_time 2 3 1 = [2] \<and> iq_time 3 3 1 = []
   \<and> create_wfm 1 (ex_store 1) 3 = Inr (NdArray Int64 [1, 1, 1])
   \<and> num_val (iq_frequency (ex_store 1)) \<noteq> 0
   \<and> render_pulse Unsafe 1 True Map.empty 3 (ex_store 1) = ([], Inl ValueError)
   \<and> render_pulse SameKind 1 True Map.empty 3 (ex_store 1) = ([], Inl TypeError)
   \<and> sequence ex_seq_iq = [[0], [1]]
   \<and> call Unsafe ex_store ex_seq_iq True Map.empty = (ex_seq_iq, [], Inl ValueError)
   \<and> call SameKind ex_store ex_seq_iq True Map.empty = (ex_seq_iq, [], Inl TypeError)
   \<and> call Unsafe ex_store ex_seq_iq False Map.empty
       = (ex_seq_iq, [], Inr (Some (NdArray Float64 [0, 0, 0, 0, 1, 1, 1, 0], 1)))
   \<and> call SameKind ex_store ex_seq_iq False Map.empty
       = (ex_seq_iq, [], Inr (Some (NdArray Float64 [0, 0, 0, 0, 1, 1, 1, 0], 1)))"
proof -
  have g: "iq_time 0 3 1 = [0, 1, 2]" "iq_time 2 3 1 = [2]" "iq_time 3 3 1 = []"
    by (simp_all add: iq_time_def eval_nat_numeral)
  have c: "create_wfm 1 (ex_store 1) 3 = Inr (NdArray Int64 [1, 1, 1])"
    by (simp add: eval_defs ex_defs)
  have f: "num_val (iq_frequency (ex_store 1)) \<noteq> 0"
    by (simp add: ex_defs)
  have r: "render_pulse Unsafe 1 True Map.empty 3 (ex_store 1) = ([], Inl ValueError)"
    by (simp add: eval_defs ex_defs)
  have r': "render_pulse SameKind 1 True Map.empty 3 (ex_store 1) = ([], Inl TypeError)"
    by (simp add: eval_defs ex_defs)
  have sq: "sequence ex_seq_iq = [[0], [1]]"
    by (simp add: ex_seq_iq_def ex_defs)
  have v: "variables ex_seq_iq = {}" "samplerate ex_seq_iq = Some 1"
    "dc_corr ex_seq_iq = RealNum (IntNum 0)"
    by (simp_all add: ex_seq_iq_def ex_defs)
  have e: "call Unsafe ex_store ex_seq_iq True Map.empty = (ex_seq_iq, [], Inl ValueError)"
    by (simp add: call_def sq v) (simp add: eval_defs ex_defs)
  have e': "call SameKind ex_store ex_seq_iq True Map.empty = (ex_seq_iq, [], Inl TypeError)"
    by (simp add: call_def sq v) (simp add: eval_defs ex_defs)
  have n: "call Unsafe ex_store ex_seq_iq False Map.empty
       = (ex_seq_iq, [], Inr (Some (NdArray Float64 [0, 0, 0, 0, 1, 1, 1, 0], 1)))"
    by (simp add: call_def sq v) (simp add: eval_defs ex_defs)
  have n': "call SameKind ex_store ex_seq_iq False Map.empty
       = (ex_seq_iq, [], Inr (Some (NdArray Float64 [0, 0, 0, 0, 1, 1, 1, 0], 1)))"
    by (simp add: call_def sq v) (simp add: eval_defs ex_defs)
  from g c f r r' sq e e' n n' show ?thesis by simp
qed

end
